theory Spec2Isabelle
  imports Complex_Main "HOL-Library.Sublist" "HOL-Library.AList"
begin

section \<open>Values shared by both scripts\<close>

text \<open>
  Both scripts work on decoded JSON. A decoded value is one of Python's \<open>None\<close>, \<open>bool\<close>,
  \<open>int\<close>, \<open>float\<close>, \<open>str\<close>, \<open>list\<close> and \<open>dict\<close>; a dict keeps its items in insertion
  order, so it is an association list (looked up with \<open>map_of\<close>, written with
  \<open>AList.update\<close>, which overwrites in place and appends a new key at the end, as a
  Python dict does). A \<open>char\<close> stands for a code point below 256. The non-finite floats
  that \<open>json.loads\<close> accepts behave in these scripts like any other non-zero float.
\<close>

datatype json =
    JNull
  | JBool bool
  | JInt int
  | JFloat real
  | JStr string
  | JArr "json list"
  | JObj "(string \<times> json) list"

text \<open>The exceptions that the modelled code can raise and does not catch.\<close>

datatype error = AttributeError | TypeError | IndexError

text \<open>Python truth value of a decoded JSON value (\<open>not x\<close>, \<open>x or y\<close>, \<open>if x\<close>).\<close>

fun truthy :: "json \<Rightarrow> bool" where
  "truthy JNull = False"
| "truthy (JBool b) = b"
| "truthy (JInt i) = (i \<noteq> 0)"
| "truthy (JFloat r) = (r \<noteq> 0)"
| "truthy (JStr s) = (s \<noteq> [])"
| "truthy (JArr xs) = (xs \<noteq> [])"
| "truthy (JObj kvs) = (kvs \<noteq> [])"

text \<open>\<open>a or b\<close>.\<close>

definition py_or :: "json \<Rightarrow> json \<Rightarrow> json" where
  "py_or a b = (if truthy a then a else b)"

text \<open>\<open>d.get(k)\<close> on a dict: the value, or \<open>None\<close> for a missing key.\<close>

definition dict_get :: "(string \<times> json) list \<Rightarrow> string \<Rightarrow> json" where
  "dict_get d k = (case map_of d k of None \<Rightarrow> JNull | Some v \<Rightarrow> v)"

text \<open>
  \<open>str.isspace\<close> on code points below 256: TAB, LF, VT, FF, CR, the four separators
  28 to 31, SPACE, NEL (133) and NBSP (160). \<open>str.strip()\<close> and \<open>str.split()\<close> use it.
\<close>

definition is_space :: "char \<Rightarrow> bool" where
  "is_space c = (of_char c \<in> set [9, 10, 11, 12, 13, 28, 29, 30, 31, 32, 133, 160 :: nat])"

definition strip :: "string \<Rightarrow> string" where
  "strip s = rev (dropWhile is_space (rev (dropWhile is_space s)))"

section \<open>The job monitor: \<open>EDA_job_monitor.py\<close>\<close>

subsection \<open>Timestamps\<close>

text \<open>
  A \<open>datetime\<close> is the number of microseconds of its wall clock since
  0001-01-01T00:00:00 (between 0 and \<open>max_wall\<close>, the last microsecond of year 9999)
  together with its \<open>tzinfo\<close>: \<open>None\<close> for a naive value, otherwise the UTC offset in
  microseconds. An aware UTC datetime, which is all that \<open>parse_time\<close> returns, is
  its microsecond count alone, and Python orders and subtracts such values by that count.
\<close>

record dtobj =
  wall :: int
  tzoffset :: "int option"

definition max_wall :: int where
  "max_wall = 3652059 * 86400 * 1000000 - 1"

text \<open>
  Lines 40 to 44 of \<open>parse_time\<close>: with the \<open>Z\<close> marker the \<open>tzinfo\<close> is replaced by
  UTC, whatever it was; a naive value is taken as UTC; an aware one is converted by
  \<open>astimezone(UTC)\<close>, which subtracts the offset and raises \<open>OverflowError\<close> outside
  the years 1 to 9999. The caller's \<open>except Exception\<close> turns that into \<open>None\<close>.
\<close>

definition astimezone_utc :: "bool \<Rightarrow> dtobj \<Rightarrow> int option" where
  "astimezone_utc tz_is_utc dt_obj =
     (if tz_is_utc then Some (wall dt_obj)
      else (case tzoffset dt_obj of
              None \<Rightarrow> Some (wall dt_obj)
            | Some off \<Rightarrow>
                (let u = wall dt_obj - off
                 in if 0 \<le> u \<and> u \<le> max_wall then Some u else None)))"

text \<open>
  \<open>parse_time\<close>. The library function \<open>datetime.fromisoformat\<close> is a parameter: it
  returns \<open>None\<close> where Python raises \<open>ValueError\<close>. The argument is whatever the
  inspect output holds under the key: a falsy value gives \<open>None\<close>, a string is parsed,
  and any other value has no \<open>strip\<close> method, which raises outside the \<open>try\<close>.
\<close>

definition parse_time :: "(string \<Rightarrow> dtobj option) \<Rightarrow> json \<Rightarrow> error + int option" where
  "parse_time fromiso s =
     (if \<not> truthy s then Inr None
      else (case s of
              JStr s0 \<Rightarrow>
                (let s1 = strip s0;
                     tz = suffix ''Z'' s1;
                     s2 = (if tz then butlast s1 else s1);
                     s3 = (if CHR ''.'' \<in> set s2 then takeWhile (\<lambda>c. c \<noteq> CHR ''.'') s2 else s2)
                 in (case fromiso s3 of
                       None \<Rightarrow> Inr None
                     | Some dt_obj \<Rightarrow> Inr (astimezone_utc tz dt_obj)))
            | _ \<Rightarrow> Inl AttributeError))"

subsection \<open>Inspecting a container\<close>

text \<open>
  \<open>run\<close> hands a command to the operating system and waits for it; the process
  spawner \<open>popen\<close> is a parameter and returns the exit status, the standard output and
  the error output.
\<close>

definition run :: "(string list \<Rightarrow> int \<times> string \<times> string) \<Rightarrow> string list \<Rightarrow> int \<times> string \<times> string" where
  "run popen cmd = (case popen cmd of (returncode, out, err) \<Rightarrow> (returncode, out, err))"

text \<open>
  \<open>inspect_container\<close>. \<open>json.loads\<close> is a parameter that returns \<open>None\<close> where
  Python raises \<open>JSONDecodeError\<close>. The identifier comes from the listing and is a
  decoded JSON value: the process spawner rejects a command word that is not a string
  with \<open>TypeError\<close>, which nothing catches.
\<close>

definition inspect_container ::
  "(string list \<Rightarrow> int \<times> string \<times> string) \<Rightarrow> (string \<Rightarrow> json option) \<Rightarrow> string \<Rightarrow> json \<Rightarrow> error + json" where
  "inspect_container popen json_loads runtime cid =
     (case cid of
        JStr c \<Rightarrow>
          (case run popen [runtime, ''inspect'', c] of
             (code, out, err) \<Rightarrow>
               if code \<noteq> 0 then Inr (JObj [])
               else (case json_loads out of
                       None \<Rightarrow> Inr (JObj [])
                     | Some data \<Rightarrow>
                         Inr (case data of
                                JArr xs \<Rightarrow> (if xs \<noteq> [] then hd xs else JObj [])
                              | _ \<Rightarrow> JObj [])))
      | _ \<Rightarrow> Inl TypeError)"

subsection \<open>Resolving the last activity of a container\<close>

text \<open>\<open>max\<close> of a non-empty list, taken from the left as Python does.\<close>

definition py_max :: "int list \<Rightarrow> int" where
  "py_max xs = fold max (tl xs) (hd xs)"

text \<open>
  \<open>container_last_event_ts\<close>. The detail is the first element of the inspect output,
  any JSON value: \<open>info.get\<close> and \<open>state.get\<close> exist on a dict only.
\<close>

definition container_last_event_ts :: "(string \<Rightarrow> dtobj option) \<Rightarrow> json \<Rightarrow> error + int option" where
  "container_last_event_ts fromiso info =
     (case info of
        JObj info_d \<Rightarrow>
          (let state = py_or (case map_of info_d ''State'' of None \<Rightarrow> JObj [] | Some v \<Rightarrow> v) (JObj [])
           in (case state of
                 JObj state_d \<Rightarrow>
                   (case parse_time fromiso (dict_get state_d ''FinishedAt'') of
                      Inl e \<Rightarrow> Inl e
                    | Inr finished \<Rightarrow>
                   (case parse_time fromiso (dict_get state_d ''StartedAt'') of
                      Inl e \<Rightarrow> Inl e
                    | Inr started \<Rightarrow>
                   (case parse_time fromiso (dict_get info_d ''Created'') of
                      Inl e \<Rightarrow> Inl e
                    | Inr created \<Rightarrow>
                        (let candidates = map the (filter (\<lambda>t. t \<noteq> None) [finished, started, created])
                         in if candidates = [] then Inr None
                            else Inr (Some (py_max candidates))))))
               | _ \<Rightarrow> Inl AttributeError))
      | _ \<Rightarrow> Inl AttributeError)"

subsection \<open>The user identity\<close>

text \<open>\<open>os.environ.get(k)\<close>: the environment is a partial map from names to strings.\<close>

definition environ_get :: "(string \<Rightarrow> string option) \<Rightarrow> string \<Rightarrow> json" where
  "environ_get environ k = (case environ k of None \<Rightarrow> JNull | Some v \<Rightarrow> JStr v)"

definition get_ansible_user :: "(string \<Rightarrow> string option) \<Rightarrow> json" where
  "get_ansible_user environ =
     py_or (py_or (py_or (environ_get environ ''ANSIBLE_USER'') (environ_get environ ''USER''))
                  (environ_get environ ''USERNAME''))
           (JStr ''unknown'')"

subsection \<open>The main program, from the listed records to the status\<close>

text \<open>
  What the program takes from outside: the process spawner, \<open>json.loads\<close>,
  \<open>datetime.fromisoformat\<close>, \<open>datetime.isoformat\<close> of an aware UTC datetime, and the
  clock read once by \<open>now_utc\<close>. The arguments are the name prefix, the look-back
  window (the \<open>timedelta\<close> built from \<open>--hours\<close>, in microseconds) and the engine name.
\<close>

record host =
  popen :: "string list \<Rightarrow> int \<times> string \<times> string"
  json_loads :: "string \<Rightarrow> json option"
  fromisoformat :: "string \<Rightarrow> dtobj option"
  isoformat :: "int \<Rightarrow> string"
  now :: int

record args =
  name_prefix :: string
  window :: int
  runtime :: string

text \<open>
  Lines 129 to 136 of \<open>main\<close>: the name filter. \<open>c.get\<close> needs a dict. The name is
  \<open>Names\<close>, else \<open>Name\<close>, else the empty string; of a list the first element is taken;
  a record whose name is a string starting with the prefix is appended, paired with
  \<open>ID\<close>, else \<open>Id\<close>, else the empty string.
\<close>

definition record_name :: "(string \<times> json) list \<Rightarrow> json" where
  "record_name c =
     (let name = py_or (py_or (dict_get c ''Names'') (dict_get c ''Name'')) (JStr [])
      in (case name of
            JArr ns \<Rightarrow> (if ns \<noteq> [] then hd ns else JStr [])
          | _ \<Rightarrow> name))"

definition record_id :: "(string \<times> json) list \<Rightarrow> json" where
  "record_id c = py_or (py_or (dict_get c ''ID'') (dict_get c ''Id'')) (JStr [])"

fun select_targets :: "string \<Rightarrow> json list \<Rightarrow> (string \<times> json) list \<Rightarrow> error + (string \<times> json) list" where
  "select_targets pfx [] target = Inr target"
| "select_targets pfx (c # containers) target =
     (case c of
        JObj d \<Rightarrow>
          (case record_name d of
             JStr name \<Rightarrow>
               (if prefix pfx name
                then select_targets pfx containers (target @ [(name, record_id d)])
                else select_targets pfx containers target)
           | _ \<Rightarrow> select_targets pfx containers target)
      | _ \<Rightarrow> Inl AttributeError)"

text \<open>\<open>s.replace(old, new)\<close> for a non-empty \<open>old\<close>: every occurrence, from the left.\<close>

fun replace_from :: "string \<Rightarrow> string \<Rightarrow> nat \<Rightarrow> string \<Rightarrow> string" where
  "replace_from old new k [] = []"
| "replace_from old new (Suc k) (c # cs) = replace_from old new k cs"
| "replace_from old new 0 (c # cs) =
     (if prefix old (c # cs) then new @ replace_from old new (length old - 1) cs
      else c # replace_from old new 0 cs)"

definition str_replace :: "string \<Rightarrow> string \<Rightarrow> string \<Rightarrow> string" where
  "str_replace old new s = replace_from old new 0 s"

text \<open>\<open>last_ts.replace(tzinfo=UTC).isoformat().replace('+00:00', 'Z')\<close>.\<close>

definition iso_z :: "host \<Rightarrow> int \<Rightarrow> string" where
  "iso_z h last_ts = str_replace ''+00:00'' ''Z'' (isoformat h last_ts)"

text \<open>
  Lines 143 to 156: the loop over the selected containers, on the pair of the job
  mapping and the \<open>unhealthy\<close> flag.
\<close>

fun job_loop ::
  "host \<Rightarrow> args \<Rightarrow> (string \<times> json) list \<Rightarrow> (string \<times> string) list \<times> bool
     \<Rightarrow> error + (string \<times> string) list \<times> bool" where
  "job_loop h a [] (jobs, unhealthy) = Inr (jobs, unhealthy)"
| "job_loop h a ((name, cid) # target) (jobs, unhealthy) =
     (case inspect_container (popen h) (json_loads h) (runtime a) cid of
        Inl e \<Rightarrow> Inl e
      | Inr info \<Rightarrow>
          (case container_last_event_ts (fromisoformat h) info of
             Inl e \<Rightarrow> Inl e
           | Inr None \<Rightarrow>
               job_loop h a target (AList.update name ''last_seen: unknown'' jobs, True)
           | Inr (Some last_ts) \<Rightarrow>
               (if now h - last_ts \<le> window a
                then job_loop h a target
                       (AList.update name (''executed_at: '' @ iso_z h last_ts) jobs, unhealthy)
                else job_loop h a target
                       (AList.update name (''last_seen: '' @ iso_z h last_ts) jobs, True))))"

text \<open>
  Lines 129 to 160 together: the \<open>message\<close> part of the payload, the status and the
  job mapping, for the records that \<open>list_containers\<close> returned.
\<close>

definition main_message :: "host \<Rightarrow> args \<Rightarrow> json list \<Rightarrow> error + string \<times> (string \<times> string) list" where
  "main_message h a containers =
     (case select_targets (name_prefix a) containers [] of
        Inl e \<Rightarrow> Inl e
      | Inr target \<Rightarrow>
          (case job_loop h a target ([], False) of
             Inl e \<Rightarrow> Inl e
           | Inr (jobs, unhealthy) \<Rightarrow>
               Inr (if \<not> unhealthy then ''healthy'' else ''unhealthy'', jobs)))"

text \<open>What \<open>parse_time\<close> does with the text \<open>q\<close> left of a final \<open>Z\<close>, once stripped.\<close>

definition parse_time_Z :: "(string \<Rightarrow> dtobj option) \<Rightarrow> string \<Rightarrow> error + int option" where
  "parse_time_Z fromiso q =
     (case fromiso (if CHR ''.'' \<in> set q then takeWhile (\<lambda>c. c \<noteq> CHR ''.'') q else q) of
        None \<Rightarrow> Inr None
      | Some dt_obj \<Rightarrow> Inr (astimezone_utc True dt_obj))"

section \<open>The compliance checker: \<open>parse_sshd_config.py\<close>\<close>

text \<open>
  The script keeps two module-level dicts, \<open>message\<close> and \<open>end_result\<close>, whose only
  entry \<open>"message"\<close> is a dict that starts as \<open>{"status": "non-compliant"}\<close>;
  \<open>write_to_json\<close> overwrites \<open>json_log.json\<close> with \<open>end_result\<close>. The state is the
  two dicts and the successive contents written to the file, the last one being the
  report. All values stored are strings.
\<close>

record checker =
  message :: "(string \<times> string) list"
  end_message :: "(string \<times> string) list"
  writes :: "(string \<times> string) list list"

definition initial :: checker where
  "initial = \<lparr>message = [], end_message = [(''status'', ''non-compliant'')], writes = []\<rparr>"

definition write_to_json :: "checker \<Rightarrow> checker" where
  "write_to_json st = st\<lparr>writes := writes st @ [end_message st]\<rparr>"

text \<open>\<open>d.update(other)\<close>: the items of \<open>other\<close> are stored into \<open>d\<close> in their order.\<close>

definition dict_update :: "(string \<times> string) list \<Rightarrow> (string \<times> string) list \<Rightarrow> (string \<times> string) list" where
  "dict_update d other = fold (\<lambda>kv. AList.update (fst kv) (snd kv)) other d"

text \<open>\<open>line.split()\<close>: the maximal runs of characters that are not whitespace.\<close>

fun split_from :: "string \<Rightarrow> string \<Rightarrow> string list" where
  "split_from cur [] = (if cur = [] then [] else [cur])"
| "split_from cur (c # cs) =
     (if is_space c then (if cur = [] then split_from [] cs else cur # split_from [] cs)
      else split_from (cur @ [c]) cs)"

definition split_ws :: "string \<Rightarrow> string list" where
  "split_ws line = split_from [] line"

text \<open>
  The inner loop, lines 17 to 26, for one key and its expected value. \<open>key in line\<close> is
  the substring test. \<open>splited_line[-1]\<close> raises \<open>IndexError\<close> on a line without a
  token. Only the branch for an equal value copies \<open>message\<close> into the result; the
  other branch sets the status and writes the file.
\<close>

fun scan_lines :: "string \<Rightarrow> json \<Rightarrow> string list \<Rightarrow> checker \<Rightarrow> error + checker" where
  "scan_lines key dflt [] st = Inr st"
| "scan_lines key dflt (line # all_lines) st =
     (if sublist key line \<and> CHR ''#'' \<notin> set line then
        (let splited_line = split_ws line
         in if splited_line = [] then Inl IndexError
            else if dflt = JStr (last splited_line) then
              (let m = AList.update key (last splited_line) (message st)
               in scan_lines key dflt all_lines
                    (st\<lparr>message := m, end_message := dict_update (end_message st) m\<rparr>))
            else
              (let m = AList.update key (last splited_line) (message st)
               in scan_lines key dflt all_lines
                    (write_to_json
                       (st\<lparr>message := m,
                           end_message := AList.update ''status'' ''compliant'' (end_message st)\<rparr>))))
      else scan_lines key dflt all_lines st)"

text \<open>The outer loop, line 16, over \<open>defaults.keys()\<close>.\<close>

fun scan_keys :: "(string \<times> json) list \<Rightarrow> string list \<Rightarrow> string list \<Rightarrow> checker \<Rightarrow> error + checker" where
  "scan_keys defaults all_lines [] st = Inr st"
| "scan_keys defaults all_lines (key # keys) st =
     (case scan_lines key (dict_get defaults key) all_lines st of
        Inl e \<Rightarrow> Inl e
      | Inr st' \<Rightarrow> scan_keys defaults all_lines keys st')"

text \<open>
  \<open>get_ssh_config_log\<close>, on the lines read from the configuration file and the decoded
  defaults file, from the initial module state. \<open>defaults.keys()\<close> needs a dict. An
  exception ends the run before the final write.
\<close>

definition get_ssh_config_log :: "string list \<Rightarrow> json \<Rightarrow> error + checker" where
  "get_ssh_config_log all_lines defaults_json =
     (case defaults_json of
        JObj defaults \<Rightarrow>
          (case scan_keys defaults all_lines (map fst defaults) initial of
             Inl e \<Rightarrow> Inl e
           | Inr st \<Rightarrow> Inr (write_to_json st))
      | _ \<Rightarrow> Inl AttributeError)"

text \<open>The report: the last contents written to \<open>json_log.json\<close>.\<close>

definition report :: "checker \<Rightarrow> (string \<times> string) list" where
  "report st = last (writes st)"

text \<open>
  The two outcomes of the test on lines 18 and 20 for a key, its expected value and a
  line: the line matches the key and is no comment, and its last token differs from, or
  is equal to, the expected value.
\<close>

definition differs :: "string \<Rightarrow> json \<Rightarrow> string \<Rightarrow> bool" where
  "differs key dflt line =
     (sublist key line \<and> CHR ''#'' \<notin> set line \<and> dflt \<noteq> JStr (last (split_ws line)))"

definition agrees :: "string \<Rightarrow> json \<Rightarrow> string \<Rightarrow> bool" where
  "agrees key dflt line =
     (sublist key line \<and> CHR ''#'' \<notin> set line \<and> dflt = JStr (last (split_ws line)))"

section \<open>A model of the library functions, for running examples\<close>

text \<open>
  The theorems below hold for every behaviour of the library functions. To run the
  definitions on examples, the two \<open>datetime\<close> functions are modelled on the strings
  that container engines emit once \<open>parse_time\<close> has cut them: \<open>YYYY-MM-DD\<close>, one
  separator character, \<open>HH:MM:SS\<close>, and optionally \<open>+HH:MM\<close> or \<open>-HH:MM\<close>. Days are
  counted as the library counts them (\<open>_ymd2ord\<close>, \<open>_ord2ymd\<close>).
\<close>

definition is_leap :: "int \<Rightarrow> bool" where
  "is_leap year = (if year mod 4 = 0 then (if year mod 100 = 0 then year mod 400 = 0 else True) else False)"

definition days_before_year :: "int \<Rightarrow> int" where
  "days_before_year year = (let y = year - 1 in y * 365 + y div 4 - y div 100 + y div 400)"

definition days_in_month :: "int \<Rightarrow> int \<Rightarrow> int" where
  "days_in_month year month =
     (if month = 2 \<and> is_leap year then 29
      else [31, 28, 31, 30, 31, 30, 31, 31, 30, 31, 30, 31] ! nat (month - 1))"

definition days_before_month :: "int \<Rightarrow> int \<Rightarrow> int" where
  "days_before_month year month =
     [0, 31, 59, 90, 120, 151, 181, 212, 243, 273, 304, 334] ! nat (month - 1)
       + (if month > 2 \<and> is_leap year then 1 else 0)"

definition ymd2ord :: "int \<Rightarrow> int \<Rightarrow> int \<Rightarrow> int" where
  "ymd2ord year month day = days_before_year year + days_before_month year month + day"

definition digit_of :: "char \<Rightarrow> int option" where
  "digit_of c = (let n = of_char c :: nat in if 48 \<le> n \<and> n \<le> 57 then Some (int n - 48) else None)"

fun number_of :: "int \<Rightarrow> string \<Rightarrow> int option" where
  "number_of acc [] = Some acc"
| "number_of acc (c # cs) =
     (case digit_of c of None \<Rightarrow> None | Some d \<Rightarrow> number_of (10 * acc + d) cs)"

definition field :: "string \<Rightarrow> nat \<Rightarrow> nat \<Rightarrow> int option" where
  "field s i n = number_of 0 (take n (drop i s))"

definition offset_of :: "string \<Rightarrow> int option option" where
  "offset_of z =
     (if z = [] then Some None
      else if length z = 6 \<and> z ! 0 \<in> set ''+-'' \<and> z ! 3 = CHR '':'' then
        (case (field z 1 2, field z 4 2) of
           (Some hh, Some mm) \<Rightarrow>
             (if hh \<le> 23 \<and> mm \<le> 59
              then Some (Some ((if z ! 0 = CHR ''-'' then - 1 else 1) * (hh * 3600 + mm * 60) * 1000000))
              else None)
         | _ \<Rightarrow> None)
      else None)"

definition iso_parse :: "string \<Rightarrow> dtobj option" where
  "iso_parse s =
     (if 19 \<le> length s \<and> s ! 4 = CHR ''-'' \<and> s ! 7 = CHR ''-'' \<and> s ! 13 = CHR '':'' \<and> s ! 16 = CHR '':'' then
        (case (field s 0 4, field s 5 2, field s 8 2, field s 11 2, field s 14 2, field s 17 2,
               offset_of (drop 19 s)) of
           (Some year, Some month, Some day, Some hh, Some mm, Some ss, Some off) \<Rightarrow>
             (if 1 \<le> year \<and> 1 \<le> month \<and> month \<le> 12 \<and> 1 \<le> day \<and> day \<le> days_in_month year month
                 \<and> hh \<le> 23 \<and> mm \<le> 59 \<and> ss \<le> 59
              then Some \<lparr>wall = ((ymd2ord year month day - 1) * 86400 + hh * 3600 + mm * 60 + ss) * 1000000,
                         tzoffset = off\<rparr>
              else None)
         | _ \<Rightarrow> None)
      else None)"

definition ord2ymd :: "int \<Rightarrow> int \<times> int \<times> int" where
  "ord2ymd ordinal =
     (let n = ordinal - 1;
          n400 = n div 146097; n = n mod 146097;
          n100 = n div 36524; n = n mod 36524;
          n4 = n div 1461; n = n mod 1461;
          n1 = n div 365; n = n mod 365;
          year = n400 * 400 + 1 + n100 * 100 + n4 * 4 + n1
      in if n1 = 4 then (year - 1, 12, 31)
         else if n100 = 4 then (year - 1, 12, 31)
         else
           (let leapyear = (if n1 = 3 then (if n4 = 24 then n100 = 3 else True) else False);
                month = (n + 50) div 32;
                preceding = [0, 31, 59, 90, 120, 151, 181, 212, 243, 273, 304, 334] ! nat (month - 1)
                              + (if month > 2 \<and> leapyear then 1 else 0)
            in if preceding > n
               then (let month = month - 1;
                         preceding = preceding
                           - ((if month = 2 \<and> leapyear then 29
                               else [31, 28, 31, 30, 31, 30, 31, 31, 30, 31, 30, 31] ! nat (month - 1)))
                     in (year, month, n - preceding + 1))
               else (year, month, n - preceding + 1)))"

definition digit_char :: "int \<Rightarrow> char" where
  "digit_char d = char_of (48 + d mod 10)"

definition pad2 :: "int \<Rightarrow> string" where
  "pad2 n = [digit_char (n div 10), digit_char n]"

definition pad4 :: "int \<Rightarrow> string" where
  "pad4 n = [digit_char (n div 1000), digit_char (n div 100), digit_char (n div 10), digit_char n]"

definition pad6 :: "int \<Rightarrow> string" where
  "pad6 n = [digit_char (n div 100000), digit_char (n div 10000), digit_char (n div 1000),
             digit_char (n div 100), digit_char (n div 10), digit_char n]"

definition iso_render :: "int \<Rightarrow> string" where
  "iso_render w =
     (let us = w mod 1000000; secs = w div 1000000;
          sod = secs mod 86400;
          ymd = ord2ymd (secs div 86400 + 1)
      in pad4 (fst ymd) @ ''-'' @ pad2 (fst (snd ymd)) @ ''-'' @ pad2 (snd (snd ymd)) @ ''T''
           @ pad2 (sod div 3600) @ '':'' @ pad2 (sod mod 3600 div 60) @ '':'' @ pad2 (sod mod 60)
           @ (if us = 0 then [] else ''.'' @ pad6 us) @ ''+00:00'')"

section \<open>Properties of timestamp parsing\<close>

lemma not_space_Z: "\<not> is_space CHR ''Z''"
  by (simp add: is_space_def)

lemma not_space_dot: "\<not> is_space CHR ''.''"
  by (simp add: is_space_def)

lemma strip_snoc_Z: "strip (a @ ''Z'') = dropWhile is_space a @ ''Z''"
proof -
  have "dropWhile is_space (a @ ''Z'') = dropWhile is_space a @ ''Z''"
    by (induction a) (simp_all add: not_space_Z)
  then show ?thesis
    by (simp add: strip_def not_space_Z)
qed

lemma cut_fraction:
  "takeWhile (\<lambda>c. c \<noteq> CHR ''.'') (q @ CHR ''.'' # ds) = takeWhile (\<lambda>c. c \<noteq> CHR ''.'') q"
  by (induction q) simp_all

lemma takeWhile_no_dot:
  "CHR ''.'' \<notin> set q \<Longrightarrow> takeWhile (\<lambda>c. c \<noteq> CHR ''.'') q = q"
  by (induction q) auto

lemma dropWhile_space_dot:
  "dropWhile is_space (p @ CHR ''.'' # ds) = dropWhile is_space p @ CHR ''.'' # ds"
  by (induction p) (simp_all add: not_space_dot)

lemma suffix_Z_snoc: "suffix ''Z'' (a @ ''Z'')"
  by (rule suffixI) simp

lemma parse_time_Z_suffixed:
  "parse_time fromiso (JStr (a @ ''Z'')) = parse_time_Z fromiso (dropWhile is_space a)"
  by (simp add: parse_time_def parse_time_Z_def strip_snoc_Z suffix_Z_snoc Let_def
        split: option.split)

text \<open>
  C6. A timestamp string that ends in \<open>Z\<close> parses to the same result with and without a
  fractional-second part: for every text \<open>p\<close> before the fraction and every run \<open>ds\<close> of
  characters after the dot (the digits, of any number), \<open>p.dsZ\<close> and \<open>pZ\<close> give the same
  instant, or both give none.
\<close>

theorem parse_time_fraction_invariant:
  "parse_time fromiso (JStr (p @ ''.'' @ ds @ ''Z''))
     = parse_time fromiso (JStr (p @ ''Z''))"
proof -
  let ?q = "dropWhile is_space p"
  let ?cut = "takeWhile (\<lambda>c. c \<noteq> CHR ''.'')"
  have l: "parse_time fromiso (JStr ((p @ CHR ''.'' # ds) @ ''Z''))
             = parse_time_Z fromiso (?q @ CHR ''.'' # ds)"
    using parse_time_Z_suffixed [of fromiso "p @ CHR ''.'' # ds"]
    by (simp only: dropWhile_space_dot)
  have r: "parse_time fromiso (JStr (p @ ''Z'')) = parse_time_Z fromiso ?q"
    by (rule parse_time_Z_suffixed)
  have "parse_time_Z fromiso (?q @ CHR ''.'' # ds) = parse_time_Z fromiso ?q"
    by (simp add: parse_time_Z_def cut_fraction takeWhile_no_dot)
  with l r show ?thesis by simp
qed

text \<open>
  C9. A timestamp string that, once stripped, does not end in \<open>Z\<close> and carries a
  fractional-second part followed by a zone suffix \<open>z\<close> is cut at the first dot: only
  the text \<open>p\<close> before the dot reaches \<open>fromisoformat\<close>, so the suffix is discarded
  together with the fraction. When \<open>p\<close> reads as a naive wall-clock time \<open>w\<close>, the result
  is \<open>w\<close> taken as UTC; the same string without the fraction, whose suffix is read as the
  offset \<open>off\<close>, gives \<open>w - off\<close>: the two results differ by the discarded offset.
\<close>

theorem parse_time_discards_offset:
  assumes "strip s0 = p @ ''.'' @ ds @ z"
      and "CHR ''.'' \<notin> set p"
      and "\<not> suffix ''Z'' (p @ ''.'' @ ds @ z)"
  shows "parse_time fromiso (JStr s0)
           = Inr (case fromiso p of None \<Rightarrow> None | Some dt_obj \<Rightarrow> astimezone_utc False dt_obj)
       \<and> (fromiso p = Some \<lparr>wall = w, tzoffset = None\<rparr>
            \<longrightarrow> parse_time fromiso (JStr s0) = Inr (Some w))
       \<and> (fromiso p = Some \<lparr>wall = w, tzoffset = None\<rparr>
            \<and> fromiso (p @ z) = Some \<lparr>wall = w, tzoffset = Some off\<rparr>
            \<and> 0 \<le> w - off \<and> w - off \<le> max_wall
            \<and> CHR ''.'' \<notin> set z \<and> strip (p @ z) = p @ z \<and> \<not> suffix ''Z'' (p @ z) \<and> p \<noteq> []
            \<longrightarrow> parse_time fromiso (JStr s0) = Inr (Some w)
                \<and> parse_time fromiso (JStr (p @ z)) = Inr (Some (w - off)))"
proof -
  have ne: "s0 \<noteq> []"
    using assms(1) by (auto simp: strip_def)
  have cut: "takeWhile (\<lambda>c. c \<noteq> CHR ''.'') (p @ ''.'' @ ds @ z) = p"
    using assms(2) by (induction p) auto
  have main: "parse_time fromiso (JStr s0)
           = Inr (case fromiso p of None \<Rightarrow> None | Some dt_obj \<Rightarrow> astimezone_utc False dt_obj)"
    using assms(1,3) cut ne
    by (simp add: parse_time_def Let_def split: option.split)
  have full: "parse_time fromiso (JStr (p @ z)) = Inr (Some (w - off))"
    if "fromiso (p @ z) = Some \<lparr>wall = w, tzoffset = Some off\<rparr>" "0 \<le> w - off" "w - off \<le> max_wall"
       "CHR ''.'' \<notin> set z" "strip (p @ z) = p @ z" "\<not> suffix ''Z'' (p @ z)" "p \<noteq> []"
    using that assms(2)
    by (simp add: parse_time_def Let_def astimezone_utc_def)
  show ?thesis
    using main full by (auto simp: astimezone_utc_def)
qed

theorem parse_time_discards_offset_witness:
  "parse_time iso_parse (JStr '' 2025-07-01T10:00:00.5+02:00'') = Inr (Some 63886960800000000)
   \<and> parse_time iso_parse (JStr ''2025-07-01T10:00:00+02:00'') = Inr (Some (63886960800000000 - 7200000000))"
proof -
  let ?p = "''2025-07-01T10:00:00''"
  let ?z = "''+02:00''"
  have a1: "strip '' 2025-07-01T10:00:00.5+02:00'' = ?p @ ''.'' @ ''5'' @ ?z" by code_simp
  have a2: "CHR ''.'' \<notin> set ?p" by simp
  have a3: "\<not> suffix ''Z'' (?p @ ''.'' @ ''5'' @ ?z)" by code_simp
  have b1: "iso_parse ?p = Some \<lparr>wall = 63886960800000000, tzoffset = None\<rparr>" by code_simp
  have b2: "iso_parse (?p @ ?z) = Some \<lparr>wall = 63886960800000000, tzoffset = Some 7200000000\<rparr>"
    by code_simp
  have b3: "(0::int) \<le> 63886960800000000 - 7200000000
            \<and> (63886960800000000::int) - 7200000000 \<le> max_wall"
    by (simp add: max_wall_def)
  have b4: "CHR ''.'' \<notin> set ?z \<and> strip (?p @ ?z) = ?p @ ?z \<and> \<not> suffix ''Z'' (?p @ ?z) \<and> ?p \<noteq> []"
    by code_simp
  from parse_time_discards_offset
         [where fromiso = iso_parse and w = 63886960800000000 and off = 7200000000, OF a1 a2 a3]
       b1 b2 b3 b4
  show ?thesis by (simp add: astimezone_utc_def)
qed

section \<open>Properties of the job monitor\<close>

subsection \<open>The last activity is the latest candidate\<close>

lemma py_max_Max:
  assumes "xs \<noteq> []"
  shows "py_max xs = Max (set xs)"
proof -
  from assms obtain a list where xs: "xs = a # list"
    by (cases xs) auto
  have "Max (set (a # list)) = fold max list a"
    by (rule Max.set_eq_fold)
  with xs show ?thesis by (simp add: py_max_def)
qed

text \<open>
  C1. For a container detail in which more than one of \<open>State.FinishedAt\<close>,
  \<open>State.StartedAt\<close> and \<open>Created\<close> parses, the resolved timestamp is the maximum of the
  parsed candidates: no candidate is later than it. In particular, when \<open>FinishedAt\<close> and
  \<open>StartedAt\<close> both parse and \<open>StartedAt\<close> is the later of the two (and \<open>Created\<close> is absent
  or not later still), the result is \<open>StartedAt\<close>, although \<open>FinishedAt\<close> comes first in the
  precedence order.
\<close>

theorem last_event_is_latest:
  assumes "info = JObj d"
      and "py_or (case map_of d ''State'' of None \<Rightarrow> JObj [] | Some v \<Rightarrow> v) (JObj []) = JObj st"
      and "parse_time fromiso (dict_get st ''FinishedAt'') = Inr finished"
      and "parse_time fromiso (dict_get st ''StartedAt'') = Inr started"
      and "parse_time fromiso (dict_get d ''Created'') = Inr created"
      and "candidates = map the (filter (\<lambda>t. t \<noteq> None) [finished, started, created])"
      and "1 < length candidates"
  shows "container_last_event_ts fromiso info = Inr (Some (Max (set candidates)))
       \<and> (\<forall>t\<in>set candidates. t \<le> Max (set candidates))
       \<and> (finished = Some f \<and> started = Some s \<and> f < s \<and> (created = None \<or> the created \<le> s)
            \<longrightarrow> container_last_event_ts fromiso info = Inr (Some s))"
proof -
  from assms(7) have ne: "candidates \<noteq> []" by auto
  have r: "container_last_event_ts fromiso info = Inr (Some (Max (set candidates)))"
    using assms(1-6) ne py_max_Max [OF ne]
    by (simp add: container_last_event_ts_def Let_def)
  moreover have "\<forall>t\<in>set candidates. t \<le> Max (set candidates)"
    by simp
  moreover have "Max (set candidates) = s"
    if "finished = Some f \<and> started = Some s \<and> f < s \<and> (created = None \<or> the created \<le> s)"
    using that assms(6) by (cases created) (auto simp: max_def)
  ultimately show ?thesis by simp
qed

theorem last_event_is_latest_witness:
  "container_last_event_ts iso_parse
     (JObj [(''State'', JObj [(''FinishedAt'', JStr ''2025-07-01T10:00:00Z''),
                              (''StartedAt'', JStr ''2025-07-01T11:00:00Z'')]),
            (''Created'', JStr ''2025-07-01T09:00:00Z'')])
     = Inr (Some 63886964400000000)"
proof -
  let ?st = "[(''FinishedAt'', JStr ''2025-07-01T10:00:00Z''),
              (''StartedAt'', JStr ''2025-07-01T11:00:00Z'')]"
  let ?d = "[(''State'', JObj ?st), (''Created'', JStr ''2025-07-01T09:00:00Z'')]"
  have a2: "py_or (case map_of ?d ''State'' of None \<Rightarrow> JObj [] | Some v \<Rightarrow> v) (JObj []) = JObj ?st"
    by (simp add: py_or_def)
  have a3: "parse_time iso_parse (dict_get ?st ''FinishedAt'') = Inr (Some 63886960800000000)"
    by code_simp
  have a4: "parse_time iso_parse (dict_get ?st ''StartedAt'') = Inr (Some 63886964400000000)"
    by code_simp
  have a5: "parse_time iso_parse (dict_get ?d ''Created'') = Inr (Some 63886957200000000)"
    by code_simp
  have a7: "1 < length (map the (filter (\<lambda>t. t \<noteq> None)
              [Some (63886960800000000::int), Some 63886964400000000, Some 63886957200000000]))"
    by simp
  from last_event_is_latest
         [where f = 63886960800000000 and s = 63886964400000000, OF refl a2 a3 a4 a5 refl a7]
  show ?thesis by simp
qed

subsection \<open>Inspection degrades to an empty mapping\<close>

lemma inspect_container_cases:
  "inspect_container spawn decode rt (JStr cid) =
     Inr (if fst (spawn [rt, ''inspect'', cid]) \<noteq> 0 then JObj []
          else (case decode (fst (snd (spawn [rt, ''inspect'', cid]))) of
                  None \<Rightarrow> JObj []
                | Some data \<Rightarrow> (case data of JArr xs \<Rightarrow> (if xs \<noteq> [] then hd xs else JObj []) | _ \<Rightarrow> JObj [])))"
  by (simp add: inspect_container_def run_def split: prod.splits option.splits)

lemma container_last_event_ts_empty: "container_last_event_ts fromiso (JObj []) = Inr None"
  by (simp add: container_last_event_ts_def py_or_def dict_get_def parse_time_def)

text \<open>
  C7. For every engine name and container identifier, \<open>inspect_container\<close> returns the
  first element of the decoded array when the command exits with status 0 and prints a
  non-empty JSON array; it returns the empty mapping when the exit status is not 0,
  when the output is not valid JSON, and when the output decodes to anything but a
  non-empty array. It always returns and raises nothing. In the main loop a container
  whose inspection gave the empty mapping is recorded as \<open>last_seen: unknown\<close> and marks
  the run unhealthy, and the loop goes on with the remaining containers.
\<close>

theorem inspect_container_degrades:
  "(fst (spawn [rt, ''inspect'', cid]) = 0 \<and>
      decode (fst (snd (spawn [rt, ''inspect'', cid]))) = Some (JArr (x # xs))
      \<longrightarrow> inspect_container spawn decode rt (JStr cid) = Inr x)
   \<and> (fst (spawn [rt, ''inspect'', cid]) \<noteq> 0
      \<longrightarrow> inspect_container spawn decode rt (JStr cid) = Inr (JObj []))
   \<and> (decode (fst (snd (spawn [rt, ''inspect'', cid]))) = None
      \<longrightarrow> inspect_container spawn decode rt (JStr cid) = Inr (JObj []))
   \<and> (decode (fst (snd (spawn [rt, ''inspect'', cid]))) = Some data \<and> (\<forall>y ys. data \<noteq> JArr (y # ys))
      \<longrightarrow> inspect_container spawn decode rt (JStr cid) = Inr (JObj []))
   \<and> (\<exists>info. inspect_container spawn decode rt (JStr cid) = Inr info)
   \<and> (inspect_container (popen h) (json_loads h) (runtime a) (JStr cid') = Inr (JObj [])
      \<longrightarrow> job_loop h a ((name, JStr cid') # target) (jobs, unhealthy)
            = job_loop h a target (AList.update name ''last_seen: unknown'' jobs, True))"
proof (intro conjI impI)
  assume "decode (fst (snd (spawn [rt, ''inspect'', cid]))) = Some data \<and> (\<forall>y ys. data \<noteq> JArr (y # ys))"
  then show "inspect_container spawn decode rt (JStr cid) = Inr (JObj [])"
    by (cases data) (auto simp: inspect_container_cases neq_Nil_conv)
qed (auto simp: inspect_container_cases container_last_event_ts_empty)

theorem inspect_container_degrades_witness:
  "inspect_container (\<lambda>cmd. (0, ''out'', [])) (\<lambda>out. Some (JArr [JObj [(''Id'', JStr ''abc'')]]))
       ''docker'' (JStr ''abc'') = Inr (JObj [(''Id'', JStr ''abc'')])
   \<and> inspect_container (\<lambda>cmd. (1, [], ''no such object'')) (\<lambda>out. None)
       ''docker'' (JStr ''abc'') = Inr (JObj [])
   \<and> inspect_container (\<lambda>cmd. (0, ''out'', [])) (\<lambda>out. None)
       ''docker'' (JStr ''abc'') = Inr (JObj [])
   \<and> inspect_container (\<lambda>cmd. (0, ''out'', [])) (\<lambda>out. Some (JArr []))
       ''docker'' (JStr ''abc'') = Inr (JObj [])
   \<and> job_loop \<lparr>popen = (\<lambda>cmd. (1, [], ''no such object'')), json_loads = (\<lambda>out. None),
                fromisoformat = iso_parse, isoformat = iso_render, now = 63886960800000000\<rparr>
              \<lparr>name_prefix = ''ansible'', window = 86400000000, runtime = ''docker''\<rparr>
              [(''ansible-job-1'', JStr ''abc'')] ([], False)
       = Inr ([(''ansible-job-1'', ''last_seen: unknown'')], True)"
proof -
  let ?ok = "\<lambda>cmd :: string list. (0 :: int, ''out'', [] :: string)"
  let ?ko = "\<lambda>cmd :: string list. (1 :: int, [] :: string, ''no such object'')"
  let ?h = "\<lparr>popen = ?ko, json_loads = (\<lambda>out. None),
             fromisoformat = iso_parse, isoformat = iso_render, now = 63886960800000000\<rparr>"
  let ?a = "\<lparr>name_prefix = ''ansible'', window = 86400000000, runtime = ''docker''\<rparr>"
  have c1: "inspect_container ?ok (\<lambda>out. Some (JArr [JObj [(''Id'', JStr ''abc'')]]))
              ''docker'' (JStr ''abc'') = Inr (JObj [(''Id'', JStr ''abc'')])"
    using inspect_container_degrades
            [where spawn = ?ok and rt = "''docker''" and cid = "''abc''"
               and decode = "\<lambda>out. Some (JArr [JObj [(''Id'', JStr ''abc'')]])"
               and x = "JObj [(''Id'', JStr ''abc'')]" and xs = "[]"]
    by simp
  have c2: "inspect_container ?ko (\<lambda>out. None) ''docker'' (JStr ''abc'') = Inr (JObj [])"
    using inspect_container_degrades
            [where spawn = ?ko and rt = "''docker''" and cid = "''abc''" and decode = "\<lambda>out. None"]
    by simp
  have c3: "inspect_container ?ok (\<lambda>out. None) ''docker'' (JStr ''abc'') = Inr (JObj [])"
    using inspect_container_degrades
            [where spawn = ?ok and rt = "''docker''" and cid = "''abc''" and decode = "\<lambda>out. None"]
    by simp
  have c4: "inspect_container ?ok (\<lambda>out. Some (JArr [])) ''docker'' (JStr ''abc'') = Inr (JObj [])"
    using inspect_container_degrades
            [where spawn = ?ok and rt = "''docker''" and cid = "''abc''"
               and decode = "\<lambda>out. Some (JArr [])" and data = "JArr []"]
    by simp
  have c5: "job_loop ?h ?a [(''ansible-job-1'', JStr ''abc'')] ([], False)
              = Inr ([(''ansible-job-1'', ''last_seen: unknown'')], True)"
    using c2 inspect_container_degrades
            [where h = ?h and a = ?a and cid' = "''abc''" and name = "''ansible-job-1''"
               and target = "[]" and jobs = "[]" and unhealthy = False]
    by simp
  from c1 c2 c3 c4 c5 show ?thesis by (intro conjI)
qed

subsection \<open>The user identity\<close>

text \<open>
  C8. The user identity is the value of \<open>ANSIBLE_USER\<close> when that variable yields a
  value, else that of \<open>USER\<close>, else that of \<open>USERNAME\<close>, in this order, and the literal
  \<open>unknown\<close> when none of the three does. A variable yields a value when it is set to a
  non-empty string.
\<close>

theorem get_ansible_user_order:
  "get_ansible_user environ =
     JStr (if environ ''ANSIBLE_USER'' \<notin> {None, Some []} then the (environ ''ANSIBLE_USER'')
           else if environ ''USER'' \<notin> {None, Some []} then the (environ ''USER'')
           else if environ ''USERNAME'' \<notin> {None, Some []} then the (environ ''USERNAME'')
           else ''unknown'')"
  by (auto simp: get_ansible_user_def environ_get_def py_or_def split: option.splits)

subsection \<open>The name filter\<close>

lemma select_targets_append:
  "select_targets pfx (map JObj ds) target =
     Inr (target @ concat (map (\<lambda>d. case record_name d of
                                      JStr name \<Rightarrow> if prefix pfx name then [(name, record_id d)] else []
                                    | _ \<Rightarrow> []) ds))"
  by (induction ds arbitrary: target) (auto split: json.splits)

text \<open>
  C3, as the claim states it, fails: a record that has a name starting with the prefix
  but neither \<open>ID\<close> nor \<open>Id\<close> is not skipped. It is selected, paired with the empty
  string as its identifier.
\<close>

theorem name_filter_missing_id_counterexample:
  "select_targets ''ansible'' [JObj [(''Names'', JStr ''ansible-job-1'')]] []
     = Inr [(''ansible-job-1'', JStr [])]"
  by (simp add: record_name_def record_id_def dict_get_def py_or_def)

text \<open>
  With the empty prefix every string matches, the empty name included: a record
  without a name is then selected under the name \<open>""\<close>.
\<close>

lemma name_filter_empty_prefix_example:
  "select_targets [] [JObj [(''ID'', JStr ''abc'')]] [] = Inr [([], JStr ''abc'')]"
  by (simp add: record_name_def record_id_def dict_get_def py_or_def)

text \<open>
  C3, amended. The name filter decides by the name alone: the records selected are, in
  their order, those whose name is a string starting with the prefix, each paired with
  its identifier, which is \<open>ID\<close>, else \<open>Id\<close>, else the empty string. So a record with a
  matching name and no usable identifier is passed on with the empty string as
  identifier, and a record without a usable name is skipped when the prefix is not empty.
\<close>

theorem name_filter_by_name_only:
  "select_targets pfx (map JObj ds) [] =
     Inr (concat (map (\<lambda>d. case record_name d of
                             JStr name \<Rightarrow> if prefix pfx name then [(name, record_id d)] else []
                           | _ \<Rightarrow> []) ds))
   \<and> (record_name d = JStr name \<and> prefix pfx name
        \<and> \<not> truthy (dict_get d ''ID'') \<and> \<not> truthy (dict_get d ''Id'')
      \<longrightarrow> select_targets pfx [JObj d] [] = Inr [(name, JStr [])])
   \<and> (\<not> truthy (dict_get d ''Names'') \<and> \<not> truthy (dict_get d ''Name'') \<and> pfx \<noteq> []
      \<longrightarrow> select_targets pfx [JObj d] [] = Inr [])"
  using select_targets_append [of pfx "[d]" "[]"]
  by (auto simp: select_targets_append record_id_def record_name_def py_or_def)

theorem name_filter_by_name_only_witness:
  "select_targets ''ansible''
     [JObj [(''Names'', JStr ''ansible-job-7''), (''Image'', JStr ''runner'')]] []
     = Inr [(''ansible-job-7'', JStr [])]
   \<and> select_targets ''ansible'' [JObj [(''ID'', JStr ''abc''), (''Image'', JStr ''runner'')]] []
     = Inr []"
proof -
  let ?d1 = "[(''Names'', JStr ''ansible-job-7''), (''Image'', JStr ''runner'')]"
  let ?d2 = "[(''ID'', JStr ''abc''), (''Image'', JStr ''runner'')]"
  have h1: "record_name ?d1 = JStr ''ansible-job-7'' \<and> prefix ''ansible'' ''ansible-job-7''
            \<and> \<not> truthy (dict_get ?d1 ''ID'') \<and> \<not> truthy (dict_get ?d1 ''Id'')"
    by (simp add: record_name_def dict_get_def py_or_def)
  have h2: "\<not> truthy (dict_get ?d2 ''Names'') \<and> \<not> truthy (dict_get ?d2 ''Name'') \<and> ''ansible'' \<noteq> []"
    by (simp add: dict_get_def)
  from h1 name_filter_by_name_only
         [where pfx = "''ansible''" and ds = "[]" and d = ?d1 and name = "''ansible-job-7''"]
  have c1: "select_targets ''ansible'' [JObj ?d1] [] = Inr [(''ansible-job-7'', JStr [])]"
    by blast
  from h2 name_filter_by_name_only [where pfx = "''ansible''" and ds = "[]" and d = ?d2]
  have c2: "select_targets ''ansible'' [JObj ?d2] [] = Inr []"
    by blast
  from c1 c2 show ?thesis by (intro conjI)
qed

subsection \<open>The look-back window\<close>

lemma job_loop_flag_sticks:
  "job_loop h a target (jobs, True) = Inr r \<Longrightarrow> snd r"
  by (induction target arbitrary: jobs r)
     (auto split: sum.splits option.splits if_splits)

text \<open>
  C4. For a container whose resolved timestamp is \<open>t\<close>: when \<open>now - t \<le> window\<close>, and so
  in particular when \<open>t\<close> is exactly \<open>now - window\<close>, the job is recorded as
  \<open>executed_at:\<close> followed by the ISO 8601 form of \<open>t\<close> and the unhealthy flag is left as
  it was; when \<open>now - t > window\<close> the job is recorded as \<open>last_seen:\<close> followed by that
  form, the flag is set, and every result of the loop is unhealthy.
\<close>

theorem window_boundary_inclusive:
  assumes "inspect_container (popen h) (json_loads h) (runtime a) cid = Inr info"
      and "container_last_event_ts (fromisoformat h) info = Inr (Some t)"
  shows "(now h - t \<le> window a \<longrightarrow>
            job_loop h a ((name, cid) # target) (jobs, unhealthy)
              = job_loop h a target (AList.update name (''executed_at: '' @ iso_z h t) jobs, unhealthy))
       \<and> (t = now h - window a \<longrightarrow>
            job_loop h a ((name, cid) # target) (jobs, unhealthy)
              = job_loop h a target (AList.update name (''executed_at: '' @ iso_z h t) jobs, unhealthy))
       \<and> (now h - t > window a \<longrightarrow>
            job_loop h a ((name, cid) # target) (jobs, unhealthy)
              = job_loop h a target (AList.update name (''last_seen: '' @ iso_z h t) jobs, True)
            \<and> (\<forall>r. job_loop h a ((name, cid) # target) (jobs, unhealthy) = Inr r \<longrightarrow> snd r))"
  using assms by (auto dest: job_loop_flag_sticks)

theorem window_boundary_inclusive_witness:
  "job_loop \<lparr>popen = (\<lambda>cmd. (0, ''out'', [])),
             json_loads = (\<lambda>out. Some (JArr [JObj [(''Created'', JStr ''2025-07-01T10:00:00Z'')]])),
             fromisoformat = iso_parse, isoformat = iso_render,
             now = 63886960800000000 + 86400000000\<rparr>
            \<lparr>name_prefix = ''ansible'', window = 86400000000, runtime = ''docker''\<rparr>
            [(''ansible-job-1'', JStr ''abc'')] ([], False)
     = Inr ([(''ansible-job-1'', ''executed_at: 2025-07-01T10:00:00Z'')], False)
   \<and> job_loop \<lparr>popen = (\<lambda>cmd. (0, ''out'', [])),
             json_loads = (\<lambda>out. Some (JArr [JObj [(''Created'', JStr ''2025-07-01T10:00:00Z'')]])),
             fromisoformat = iso_parse, isoformat = iso_render,
             now = 63886960800000000 + 86400000001\<rparr>
            \<lparr>name_prefix = ''ansible'', window = 86400000000, runtime = ''docker''\<rparr>
            [(''ansible-job-1'', JStr ''abc'')] ([], False)
     = Inr ([(''ansible-job-1'', ''last_seen: 2025-07-01T10:00:00Z'')], True)"
proof -
  let ?info = "JObj [(''Created'', JStr ''2025-07-01T10:00:00Z'')]"
  let ?sp = "\<lambda>cmd :: string list. (0 :: int, ''out'', [] :: string)"
  let ?dec = "\<lambda>out :: string. Some (JArr [?info])"
  let ?h1 = "\<lparr>popen = ?sp, json_loads = ?dec, fromisoformat = iso_parse, isoformat = iso_render,
              now = 63886960800000000 + 86400000000\<rparr>"
  let ?h2 = "\<lparr>popen = ?sp, json_loads = ?dec, fromisoformat = iso_parse, isoformat = iso_render,
              now = 63886960800000000 + 86400000001\<rparr>"
  let ?a = "\<lparr>name_prefix = ''ansible'', window = 86400000000, runtime = ''docker''\<rparr>"
  have i: "inspect_container ?sp ?dec ''docker'' (JStr ''abc'') = Inr ?info"
    by (simp add: inspect_container_def run_def)
  have t: "container_last_event_ts iso_parse ?info = Inr (Some 63886960800000000)"
    by code_simp
  have z1: "iso_z ?h1 63886960800000000 = ''2025-07-01T10:00:00Z''"
    by code_simp
  have z2: "iso_z ?h2 63886960800000000 = ''2025-07-01T10:00:00Z''"
    by code_simp
  have i1: "inspect_container (popen ?h1) (json_loads ?h1) (runtime ?a) (JStr ''abc'') = Inr ?info"
    using i by simp
  have t1: "container_last_event_ts (fromisoformat ?h1) ?info = Inr (Some 63886960800000000)"
    using t by simp
  have i2: "inspect_container (popen ?h2) (json_loads ?h2) (runtime ?a) (JStr ''abc'') = Inr ?info"
    using i by simp
  have t2: "container_last_event_ts (fromisoformat ?h2) ?info = Inr (Some 63886960800000000)"
    using t by simp
  have c1: "job_loop ?h1 ?a [(''ansible-job-1'', JStr ''abc'')] ([], False)
              = Inr ([(''ansible-job-1'', ''executed_at: 2025-07-01T10:00:00Z'')], False)"
    using window_boundary_inclusive
            [where name = "''ansible-job-1''" and target = "[]" and jobs = "[]" and unhealthy = False,
             OF i1 t1] z1
    by simp
  have c2: "job_loop ?h2 ?a [(''ansible-job-1'', JStr ''abc'')] ([], False)
              = Inr ([(''ansible-job-1'', ''last_seen: 2025-07-01T10:00:00Z'')], True)"
    using window_boundary_inclusive
            [where name = "''ansible-job-1''" and target = "[]" and jobs = "[]" and unhealthy = False,
             OF i2 t2] z2
    by simp
  from c1 c2 show ?thesis by (intro conjI)
qed

subsection \<open>The overall status\<close>

lemma job_loop_unhealthy_iff:
  "job_loop h a target (jobs, u) = Inr (jobs', u') \<Longrightarrow>
     u' = (u \<or> (\<exists>(name, cid)\<in>set target. \<exists>info.
                  inspect_container (popen h) (json_loads h) (runtime a) cid = Inr info
                  \<and> (container_last_event_ts (fromisoformat h) info = Inr None
                     \<or> (\<exists>t. container_last_event_ts (fromisoformat h) info = Inr (Some t)
                            \<and> window a < now h - t))))"
proof (induction target arbitrary: jobs u)
  case Nil
  then show ?case by simp
next
  case (Cons nc target)
  obtain name cid where nc: "nc = (name, cid)" by (cases nc)
  from Cons.prems obtain info ts where
    i: "inspect_container (popen h) (json_loads h) (runtime a) cid = Inr info" and
    t: "container_last_event_ts (fromisoformat h) info = Inr ts"
    unfolding nc by (auto split: sum.splits)
  show ?case
  proof (cases ts)
    case None
    with Cons.prems i t have "job_loop h a target (AList.update name ''last_seen: unknown'' jobs, True) = Inr (jobs', u')"
      by (simp add: nc)
    from Cons.IH [OF this] show ?thesis using i t None by (auto simp: nc)
  next
    case (Some ts')
    show ?thesis
    proof (cases "now h - ts' \<le> window a")
      case True
      with Cons.prems i t Some
      have "job_loop h a target (AList.update name (''executed_at: '' @ iso_z h ts') jobs, u) = Inr (jobs', u')"
        by (simp add: nc)
      from Cons.IH [OF this] show ?thesis using i t Some True by (auto simp: nc)
    next
      case False
      with Cons.prems i t Some
      have "job_loop h a target (AList.update name (''last_seen: '' @ iso_z h ts') jobs, True) = Inr (jobs', u')"
        by (simp add: nc)
      from Cons.IH [OF this] show ?thesis using i t Some False by (auto simp: nc)
    qed
  qed
qed

text \<open>
  C5. When no container passes the name filter, the status is \<open>healthy\<close> and the job
  mapping is empty. In general the status is \<open>healthy\<close> or \<open>unhealthy\<close>, and it is
  \<open>unhealthy\<close> if and only if at least one selected container was classified unknown
  (no timestamp resolved) or stale (its timestamp is older than the window).
\<close>

theorem status_unhealthy_iff:
  "(select_targets (name_prefix a) containers [] = Inr []
      \<longrightarrow> main_message h a containers = Inr (''healthy'', []))
   \<and> (select_targets (name_prefix a) containers [] = Inr target
       \<and> main_message h a containers = Inr (status, jobs)
      \<longrightarrow> (status = ''unhealthy'' \<or> status = ''healthy'')
          \<and> (status = ''unhealthy'' \<longleftrightarrow>
               (\<exists>(name, cid)\<in>set target. \<exists>info.
                  inspect_container (popen h) (json_loads h) (runtime a) cid = Inr info
                  \<and> (container_last_event_ts (fromisoformat h) info = Inr None
                     \<or> (\<exists>t. container_last_event_ts (fromisoformat h) info = Inr (Some t)
                            \<and> window a < now h - t)))))"
proof (intro conjI impI)
  assume "select_targets (name_prefix a) containers [] = Inr []"
  then show "main_message h a containers = Inr (''healthy'', [])"
    by (simp add: main_message_def)
next
  assume *: "select_targets (name_prefix a) containers [] = Inr target
             \<and> main_message h a containers = Inr (status, jobs)"
  then obtain u where l: "job_loop h a target ([], False) = Inr (jobs, u)"
    and s: "status = (if \<not> u then ''healthy'' else ''unhealthy'')"
    by (auto simp: main_message_def split: sum.splits)
  from s show "status = ''unhealthy'' \<or> status = ''healthy''" by simp
  from job_loop_unhealthy_iff [OF l] s
  show "status = ''unhealthy'' \<longleftrightarrow>
               (\<exists>(name, cid)\<in>set target. \<exists>info.
                  inspect_container (popen h) (json_loads h) (runtime a) cid = Inr info
                  \<and> (container_last_event_ts (fromisoformat h) info = Inr None
                     \<or> (\<exists>t. container_last_event_ts (fromisoformat h) info = Inr (Some t)
                            \<and> window a < now h - t)))"
    by (cases u) simp_all
qed

theorem status_unhealthy_iff_witness:
  "main_message \<lparr>popen = (\<lambda>cmd. (1, [], ''no such object'')), json_loads = (\<lambda>out. None),
                  fromisoformat = iso_parse, isoformat = iso_render, now = 63886960800000000\<rparr>
                 \<lparr>name_prefix = ''ansible'', window = 86400000000, runtime = ''docker''\<rparr>
                 [JObj [(''Names'', JStr ''web''), (''ID'', JStr ''abc'')]]
     = Inr (''healthy'', [])
   \<and> main_message \<lparr>popen = (\<lambda>cmd. (1, [], ''no such object'')), json_loads = (\<lambda>out. None),
                  fromisoformat = iso_parse, isoformat = iso_render, now = 63886960800000000\<rparr>
                 \<lparr>name_prefix = ''ansible'', window = 86400000000, runtime = ''docker''\<rparr>
                 [JObj [(''Names'', JStr ''ansible-job-1''), (''ID'', JStr ''abc'')]]
     = Inr (''unhealthy'', [(''ansible-job-1'', ''last_seen: unknown'')])
   \<and> inspect_container (\<lambda>cmd. (1, [], ''no such object'')) (\<lambda>out. None) ''docker'' (JStr ''abc'')
     = Inr (JObj [])
   \<and> container_last_event_ts iso_parse (JObj []) = Inr None"
proof -
  let ?h = "\<lparr>popen = (\<lambda>cmd :: string list. (1 :: int, [] :: string, ''no such object'')),
             json_loads = (\<lambda>out :: string. None :: json option),
             fromisoformat = iso_parse, isoformat = iso_render, now = 63886960800000000\<rparr>"
  let ?a = "\<lparr>name_prefix = ''ansible'', window = 86400000000, runtime = ''docker''\<rparr>"
  let ?c1 = "[JObj [(''Names'', JStr ''web''), (''ID'', JStr ''abc'')]]"
  let ?c2 = "[JObj [(''Names'', JStr ''ansible-job-1''), (''ID'', JStr ''abc'')]]"
  have s1: "select_targets (name_prefix ?a) ?c1 [] = Inr []"
    by (simp add: record_name_def dict_get_def py_or_def)
  have s2: "select_targets (name_prefix ?a) ?c2 [] = Inr [(''ansible-job-1'', JStr ''abc'')]"
    by (simp add: record_name_def record_id_def dict_get_def py_or_def)
  have i: "inspect_container (\<lambda>cmd. (1, [], ''no such object'')) (\<lambda>out. None) ''docker'' (JStr ''abc'')
             = Inr (JObj [])"
    by (simp add: inspect_container_def run_def)
  have t: "container_last_event_ts iso_parse (JObj []) = Inr None"
    by (rule container_last_event_ts_empty)
  have m2: "main_message ?h ?a ?c2 = Inr (''unhealthy'', [(''ansible-job-1'', ''last_seen: unknown'')])"
    using s2 i t by (simp add: main_message_def)
  have c1: "main_message ?h ?a ?c1 = Inr (''healthy'', [])"
    using s1 status_unhealthy_iff [where a = ?a and h = ?h and containers = ?c1]
    by blast
  have "''unhealthy'' = ''unhealthy'' \<longleftrightarrow>
          (\<exists>(name, cid)\<in>set [(''ansible-job-1'', JStr ''abc'')]. \<exists>info.
              inspect_container (popen ?h) (json_loads ?h) (runtime ?a) cid = Inr info
              \<and> (container_last_event_ts (fromisoformat ?h) info = Inr None
                 \<or> (\<exists>t. container_last_event_ts (fromisoformat ?h) info = Inr (Some t)
                        \<and> window ?a < now ?h - t)))"
    using s2 m2
          status_unhealthy_iff
            [where a = ?a and h = ?h and containers = ?c2
               and target = "[(''ansible-job-1'', JStr ''abc'')]"
               and status = "''unhealthy''" and jobs = "[(''ansible-job-1'', ''last_seen: unknown'')]"]
    by blast
  with c1 m2 i t show ?thesis by (intro conjI)
qed

section \<open>Properties of the compliance checker\<close>

subsection \<open>Dict updates and token splitting\<close>

lemma dict_update_keys: "fst ` set (dict_update d m) = fst ` set d \<union> fst ` set m"
  unfolding dict_update_def
  by (induction m arbitrary: d) (auto simp: dom_update)

lemma dict_update_other:
  "k \<notin> fst ` set m \<Longrightarrow> map_of (dict_update d m) k = map_of d k"
  unfolding dict_update_def
  by (induction m arbitrary: d) (auto simp: update_conv')

lemma split_from_Nil: "split_from cur s = [] \<longleftrightarrow> cur = [] \<and> list_all is_space s"
  by (induction s arbitrary: cur) auto

lemma split_ws_Nil: "split_ws s = [] \<longleftrightarrow> list_all is_space s"
  by (simp add: split_ws_def split_from_Nil)

subsection \<open>What the two loops maintain\<close>

lemma scan_lines_inv_all:
  assumes "scan_lines key dflt ls st = Inr st'"
      and "key \<noteq> ''status''"
      and "''status'' \<notin> fst ` set (message st)"
  shows "''status'' \<notin> fst ` set (message st')
       \<and> map_of (end_message st') ''status''
           = (if \<exists>l\<in>set ls. differs key dflt l then Some ''compliant''
              else map_of (end_message st) ''status'')
       \<and> fst ` set (end_message st) \<subseteq> fst ` set (end_message st')
       \<and> ((\<exists>l\<in>set ls. agrees key dflt l) \<longrightarrow> key \<in> fst ` set (end_message st'))"
  using assms
proof (induction ls arbitrary: st)
  case Nil
  then show ?case by simp
next
  case (Cons line ls)
  show ?case
  proof (cases "sublist key line \<and> CHR ''#'' \<notin> set line")
    case False
    with Cons.prems have r: "scan_lines key dflt ls st = Inr st'" by auto
    from False have nd: "\<not> differs key dflt line" and na: "\<not> agrees key dflt line"
      by (auto simp: differs_def agrees_def)
    note ih = Cons.IH [OF r Cons.prems(2,3)]
    note ih1 = conjunct1 [OF ih]
    note ih2 = conjunct1 [OF conjunct2 [OF ih]]
    note ih3 = conjunct1 [OF conjunct2 [OF conjunct2 [OF ih]]]
    note ih4 = conjunct2 [OF conjunct2 [OF conjunct2 [OF ih]]]
    show ?thesis
    proof (intro conjI)
      show "''status'' \<notin> fst ` set (message st')" by (rule ih1)
      show "map_of (end_message st') ''status''
           = (if \<exists>l\<in>set (line # ls). differs key dflt l then Some ''compliant''
              else map_of (end_message st) ''status'')"
        using ih2 nd by simp
      show "fst ` set (end_message st) \<subseteq> fst ` set (end_message st')" by (rule ih3)
      show "(\<exists>l\<in>set (line # ls). agrees key dflt l) \<longrightarrow> key \<in> fst ` set (end_message st')"
        using ih4 na by simp
    qed
  next
    case True
    with Cons.prems(1) have ne: "split_ws line \<noteq> []"
      by (auto simp: Let_def split: if_splits)
    let ?m = "AList.update key (last (split_ws line)) (message st)"
    have m: "''status'' \<notin> fst ` set ?m"
      using Cons.prems(2,3) by (simp add: dom_update)
    show ?thesis
    proof (cases "dflt = JStr (last (split_ws line))")
      case eq: True
      define st1 where "st1 = st\<lparr>message := ?m, end_message := dict_update (end_message st) ?m\<rparr>"
      from Cons.prems(1) True ne eq have r: "scan_lines key dflt ls st1 = Inr st'"
        by (simp add: Let_def st1_def)
      have m1: "''status'' \<notin> fst ` set (message st1)"
        using m by (simp add: st1_def)
      note ih = Cons.IH [OF r Cons.prems(2) m1]
      note ih1 = conjunct1 [OF ih]
      note ih2 = conjunct1 [OF conjunct2 [OF ih]]
      note ih3 = conjunct1 [OF conjunct2 [OF conjunct2 [OF ih]]]
      have s1: "map_of (end_message st1) ''status'' = map_of (end_message st) ''status''"
        using m by (simp add: dict_update_other st1_def)
      have k1: "fst ` set (end_message st1) = fst ` set (end_message st) \<union> insert key (fst ` set (message st))"
        by (simp add: dict_update_keys dom_update st1_def)
      have nd: "\<not> differs key dflt line" using eq by (simp add: differs_def)
      have sub: "fst ` set (end_message st) \<subseteq> fst ` set (end_message st1)"
        unfolding k1 by (rule Un_upper1)
      have kin: "key \<in> fst ` set (end_message st1)"
        unfolding k1 by simp
      show ?thesis
      proof (intro conjI)
        show "''status'' \<notin> fst ` set (message st')" by (rule ih1)
        show "map_of (end_message st') ''status''
           = (if \<exists>l\<in>set (line # ls). differs key dflt l then Some ''compliant''
              else map_of (end_message st) ''status'')"
          using ih2 s1 nd by simp
        show "fst ` set (end_message st) \<subseteq> fst ` set (end_message st')"
          using sub ih3 by (rule subset_trans)
        show "(\<exists>l\<in>set (line # ls). agrees key dflt l) \<longrightarrow> key \<in> fst ` set (end_message st')"
          using kin ih3 by (intro impI) (rule subsetD [OF ih3 kin])
      qed
    next
      case neq: False
      define st1 where "st1 = write_to_json (st\<lparr>message := ?m,
                     end_message := AList.update ''status'' ''compliant'' (end_message st)\<rparr>)"
      from Cons.prems(1) True ne neq have r: "scan_lines key dflt ls st1 = Inr st'"
        by (simp add: Let_def st1_def)
      have m1: "''status'' \<notin> fst ` set (message st1)"
        using m by (simp add: st1_def write_to_json_def)
      note ih = Cons.IH [OF r Cons.prems(2) m1]
      note ih1 = conjunct1 [OF ih]
      note ih2 = conjunct1 [OF conjunct2 [OF ih]]
      note ih3 = conjunct1 [OF conjunct2 [OF conjunct2 [OF ih]]]
      note ih4 = conjunct2 [OF conjunct2 [OF conjunct2 [OF ih]]]
      have s1: "map_of (end_message st1) ''status'' = Some ''compliant''"
        by (simp add: write_to_json_def update_conv' st1_def)
      have k1: "fst ` set (end_message st) \<subseteq> fst ` set (end_message st1)"
        by (auto simp: write_to_json_def dom_update st1_def)
      have d: "differs key dflt line" "\<not> agrees key dflt line"
        using True neq by (simp_all add: differs_def agrees_def)
      show ?thesis
      proof (intro conjI)
        show "''status'' \<notin> fst ` set (message st')" by (rule ih1)
        show "map_of (end_message st') ''status''
           = (if \<exists>l\<in>set (line # ls). differs key dflt l then Some ''compliant''
              else map_of (end_message st) ''status'')"
          using ih2 s1 d(1) by simp
        show "fst ` set (end_message st) \<subseteq> fst ` set (end_message st')"
          using k1 ih3 by (rule subset_trans)
        show "(\<exists>l\<in>set (line # ls). agrees key dflt l) \<longrightarrow> key \<in> fst ` set (end_message st')"
          using ih4 d(2) by simp
      qed
    qed
  qed
qed

lemma scan_lines_inv:
  assumes "scan_lines key dflt ls st = Inr st'"
      and "key \<noteq> ''status''"
      and "''status'' \<notin> fst ` set (message st)"
  shows "''status'' \<notin> fst ` set (message st')"
    and "map_of (end_message st') ''status''
           = (if \<exists>l\<in>set ls. differs key dflt l then Some ''compliant''
              else map_of (end_message st) ''status'')"
    and "fst ` set (end_message st) \<subseteq> fst ` set (end_message st')"
    and "(\<exists>l\<in>set ls. agrees key dflt l) \<longrightarrow> key \<in> fst ` set (end_message st')"
proof -
  note all = scan_lines_inv_all [OF assms]
  from all show "''status'' \<notin> fst ` set (message st')" by (rule conjunct1)
  from all show "map_of (end_message st') ''status''
           = (if \<exists>l\<in>set ls. differs key dflt l then Some ''compliant''
              else map_of (end_message st) ''status'')"
    by (rule conjunct1 [OF conjunct2])
  from all show "fst ` set (end_message st) \<subseteq> fst ` set (end_message st')"
    by (rule conjunct1 [OF conjunct2 [OF conjunct2]])
  from all show "(\<exists>l\<in>set ls. agrees key dflt l) \<longrightarrow> key \<in> fst ` set (end_message st')"
    by (rule conjunct2 [OF conjunct2 [OF conjunct2]])
qed

lemma scan_keys_inv_all:
  assumes "scan_keys defaults ls keys st = Inr st'"
      and "''status'' \<notin> set keys"
      and "''status'' \<notin> fst ` set (message st)"
  shows "map_of (end_message st') ''status''
           = (if \<exists>key\<in>set keys. \<exists>line\<in>set ls. differs key (dict_get defaults key) line
              then Some ''compliant'' else map_of (end_message st) ''status'')
       \<and> fst ` set (end_message st) \<subseteq> fst ` set (end_message st')
       \<and> (\<forall>key\<in>set keys. (\<exists>line\<in>set ls. agrees key (dict_get defaults key) line)
             \<longrightarrow> key \<in> fst ` set (end_message st'))"
  using assms
proof (induction keys arbitrary: st)
  case Nil
  then show ?case by simp
next
  case (Cons key keys)
  from Cons.prems(1) obtain st1 where
    a: "scan_lines key (dict_get defaults key) ls st = Inr st1" and
    b: "scan_keys defaults ls keys st1 = Inr st'"
    by (auto split: sum.splits)
  from Cons.prems(2) have k: "key \<noteq> ''status''" "''status'' \<notin> set keys" by auto
  note i1 = scan_lines_inv(1) [OF a k(1) Cons.prems(3)]
  note i2 = scan_lines_inv(2) [OF a k(1) Cons.prems(3)]
  note i3 = scan_lines_inv(3) [OF a k(1) Cons.prems(3)]
  note i4 = scan_lines_inv(4) [OF a k(1) Cons.prems(3)]
  note j = Cons.IH [OF b k(2) i1]
  note j1 = conjunct1 [OF j]
  note j2 = conjunct1 [OF conjunct2 [OF j]]
  note j3 = conjunct2 [OF conjunct2 [OF j]]
  have c1: "map_of (end_message st') ''status''
           = (if \<exists>key\<in>set (key # keys). \<exists>line\<in>set ls. differs key (dict_get defaults key) line
              then Some ''compliant'' else map_of (end_message st) ''status'')"
  proof (cases "\<exists>k\<in>set keys. \<exists>line\<in>set ls. differs k (dict_get defaults k) line")
    case True
    with j1 show ?thesis by simp
  next
    case rest: False
    show ?thesis
    proof (cases "\<exists>line\<in>set ls. differs key (dict_get defaults key) line")
      case True
      with j1 i2 rest show ?thesis by simp
    next
      case False
      with j1 i2 rest show ?thesis by simp
    qed
  qed
  have c2: "fst ` set (end_message st) \<subseteq> fst ` set (end_message st')"
    using i3 j2 by (rule subset_trans)
  have "(\<exists>line\<in>set ls. agrees key (dict_get defaults key) line) \<longrightarrow> key \<in> fst ` set (end_message st')"
  proof
    assume "\<exists>line\<in>set ls. agrees key (dict_get defaults key) line"
    with i4 have "key \<in> fst ` set (end_message st1)" by (rule mp)
    with j2 show "key \<in> fst ` set (end_message st')" by (rule subsetD)
  qed
  with j3 have c3: "\<forall>key\<in>set (key # keys). (\<exists>line\<in>set ls. agrees key (dict_get defaults key) line)
             \<longrightarrow> key \<in> fst ` set (end_message st')"
    by simp
  from c1 c2 c3 show ?case by (intro conjI)
qed

subsection \<open>The run completes\<close>

lemma scan_lines_returns:
  assumes "\<not> list_all is_space key"
  shows "\<exists>st'. scan_lines key dflt ls st = Inr st'"
proof (induction ls arbitrary: st)
  case Nil
  then show ?case by simp
next
  case (Cons line ls)
  show ?case
  proof (cases "sublist key line \<and> CHR ''#'' \<notin> set line")
    case False
    with Cons.IH [of st] show ?thesis by auto
  next
    case True
    then obtain ps ss where "line = ps @ key @ ss" by (auto simp: sublist_def)
    with assms have "\<not> list_all is_space line" by simp
    then have ne: "split_ws line \<noteq> []" by (simp add: split_ws_Nil)
    let ?m = "AList.update key (last (split_ws line)) (message st)"
    show ?thesis
    proof (cases "dflt = JStr (last (split_ws line))")
      case eq: True
      from Cons.IH obtain st' where
        "scan_lines key dflt ls (st\<lparr>message := ?m, end_message := dict_update (end_message st) ?m\<rparr>) = Inr st'"
        by blast
      with True ne eq show ?thesis by (simp add: Let_def)
    next
      case neq: False
      from Cons.IH obtain st' where
        "scan_lines key dflt ls (write_to_json (st\<lparr>message := ?m,
            end_message := AList.update ''status'' ''compliant'' (end_message st)\<rparr>)) = Inr st'"
        by blast
      with True ne neq show ?thesis by (simp add: Let_def)
    qed
  qed
qed

lemma scan_keys_returns:
  assumes "\<forall>key\<in>set keys. \<not> list_all is_space key"
  shows "\<exists>st'. scan_keys defaults ls keys st = Inr st'"
  using assms
proof (induction keys arbitrary: st)
  case Nil
  then show ?case by simp
next
  case (Cons key keys)
  from Cons.prems have "\<not> list_all is_space key" by simp
  from scan_lines_returns [OF this] obtain st1 where
    a: "scan_lines key (dict_get defaults key) ls st = Inr st1" by blast
  from Cons.prems have "\<forall>key\<in>set keys. \<not> list_all is_space key" by simp
  from Cons.IH [OF this] obtain st' where "scan_keys defaults ls keys st1 = Inr st'" by blast
  with a show ?case by simp
qed

lemma get_ssh_config_log_returns:
  assumes "\<forall>key\<in>fst ` set defaults. \<not> list_all is_space key"
  shows "\<exists>st. get_ssh_config_log all_lines (JObj defaults) = Inr st"
proof -
  from assms have "\<forall>key\<in>set (map fst defaults). \<not> list_all is_space key" by simp
  from scan_keys_returns [OF this] obtain st0 where
    "scan_keys defaults all_lines (map fst defaults) initial = Inr st0" by blast
  then show ?thesis
    by (simp add: get_ssh_config_log_def)
qed

subsection \<open>The status\<close>

text \<open>
  C2, as the claim states it, fails when an expected directive is itself named
  \<open>status\<close>: the report is one flat dict, so the value recorded for that directive
  overwrites the status. Here the only expected directive is observed with its expected
  value, and the final status is \<open>compliant\<close>.
\<close>

theorem status_key_collision_counterexample:
  "get_ssh_config_log [''status compliant'' @ [CHR 0x0A]] (JObj [(''status'', JStr ''compliant'')])
     = Inr \<lparr>message = [(''status'', ''compliant'')],
            end_message = [(''status'', ''compliant'')],
            writes = [[(''status'', ''compliant'')]]\<rparr>"
  by code_simp

text \<open>
  C2, amended. The status starts as \<open>non-compliant\<close>. Provided that no expected
  directive is named \<open>status\<close>: the run completes when every directive name has a
  character that is not whitespace, and in every run that completes the reported status is
  \<open>compliant\<close> exactly when, for at least one expected directive, some line that contains
  the directive name and no \<open>#\<close> has a last token different from the expected value,
  and \<open>non-compliant\<close> otherwise; and every directive for which some such line has a last
  token equal to the expected value has an entry in the report.
\<close>

theorem status_flips_on_difference:
  assumes "''status'' \<notin> fst ` set defaults"
  shows "map_of (end_message initial) ''status'' = Some ''non-compliant''
       \<and> ((\<forall>key\<in>fst ` set defaults. \<not> list_all is_space key)
            \<longrightarrow> (\<exists>st'. get_ssh_config_log all_lines (JObj defaults) = Inr st'))
       \<and> (get_ssh_config_log all_lines (JObj defaults) = Inr st
            \<longrightarrow> map_of (report st) ''status''
                  = Some (if \<exists>key\<in>fst ` set defaults. \<exists>line\<in>set all_lines.
                               sublist key line \<and> CHR ''#'' \<notin> set line
                               \<and> dict_get defaults key \<noteq> JStr (last (split_ws line))
                          then ''compliant'' else ''non-compliant'')
                \<and> (\<forall>key\<in>fst ` set defaults. \<forall>line\<in>set all_lines.
                      sublist key line \<and> CHR ''#'' \<notin> set line
                      \<and> dict_get defaults key = JStr (last (split_ws line))
                      \<longrightarrow> key \<in> fst ` set (report st)))"
proof -
  have start: "map_of (end_message initial) ''status'' = Some ''non-compliant''"
    by (simp add: initial_def)
  have returns: "(\<forall>key\<in>fst ` set defaults. \<not> list_all is_space key)
            \<longrightarrow> (\<exists>st'. get_ssh_config_log all_lines (JObj defaults) = Inr st')"
    by (rule impI) (rule get_ssh_config_log_returns)
  have result: "map_of (report st) ''status''
                  = Some (if \<exists>key\<in>fst ` set defaults. \<exists>line\<in>set all_lines.
                               sublist key line \<and> CHR ''#'' \<notin> set line
                               \<and> dict_get defaults key \<noteq> JStr (last (split_ws line))
                          then ''compliant'' else ''non-compliant'')
                \<and> (\<forall>key\<in>fst ` set defaults. \<forall>line\<in>set all_lines.
                      sublist key line \<and> CHR ''#'' \<notin> set line
                      \<and> dict_get defaults key = JStr (last (split_ws line))
                      \<longrightarrow> key \<in> fst ` set (report st))"
    if run: "get_ssh_config_log all_lines (JObj defaults) = Inr st"
  proof -
    from run obtain st0 where
      a: "scan_keys defaults all_lines (map fst defaults) initial = Inr st0" and
      b: "st = write_to_json st0"
      by (auto simp: get_ssh_config_log_def split: sum.splits)
    have r: "report st = end_message st0"
      by (simp add: b report_def write_to_json_def)
    have k: "''status'' \<notin> set (map fst defaults)" using assms by simp
    have m: "''status'' \<notin> fst ` set (message initial)" by (simp add: initial_def)
    note inv = scan_keys_inv_all [OF a k m]
    note i1 = conjunct1 [OF inv]
    note i3 = conjunct2 [OF conjunct2 [OF inv]]
    from start i1 i3 show ?thesis
      unfolding r differs_def agrees_def by (auto split: if_splits)
  qed
  show ?thesis
    by (rule conjI [OF start conjI [OF returns impI [OF result]]])
qed

theorem status_flips_on_difference_witness:
  "map_of (report \<lparr>message = [(''Port'', ''22''), (''PermitRootLogin'', ''yes'')],
                   end_message = [(''status'', ''compliant''), (''Port'', ''22'')],
                   writes = [[(''status'', ''compliant''), (''Port'', ''22'')],
                             [(''status'', ''compliant''), (''Port'', ''22'')]]\<rparr>) ''status''
     = Some ''compliant''
   \<and> ''Port'' \<in> fst ` set (report \<lparr>message = [(''Port'', ''22''), (''PermitRootLogin'', ''yes'')],
                   end_message = [(''status'', ''compliant''), (''Port'', ''22'')],
                   writes = [[(''status'', ''compliant''), (''Port'', ''22'')],
                             [(''status'', ''compliant''), (''Port'', ''22'')]]\<rparr>)
   \<and> get_ssh_config_log
        [''Port 22'' @ [CHR 0x0A], ''#Port 2222'' @ [CHR 0x0A], ''PermitRootLogin yes'' @ [CHR 0x0A]]
        (JObj [(''Port'', JStr ''22''), (''PermitRootLogin'', JStr ''no'')])
     = Inr \<lparr>message = [(''Port'', ''22''), (''PermitRootLogin'', ''yes'')],
            end_message = [(''status'', ''compliant''), (''Port'', ''22'')],
            writes = [[(''status'', ''compliant''), (''Port'', ''22'')],
                      [(''status'', ''compliant''), (''Port'', ''22'')]]\<rparr>"
proof -
  let ?lines = "[''Port 22'' @ [CHR 0x0A], ''#Port 2222'' @ [CHR 0x0A], ''PermitRootLogin yes'' @ [CHR 0x0A]]"
  let ?defaults = "[(''Port'', JStr ''22''), (''PermitRootLogin'', JStr ''no'')]"
  let ?st = "\<lparr>message = [(''Port'', ''22''), (''PermitRootLogin'', ''yes'')],
              end_message = [(''status'', ''compliant''), (''Port'', ''22'')],
              writes = [[(''status'', ''compliant''), (''Port'', ''22'')],
                        [(''status'', ''compliant''), (''Port'', ''22'')]]\<rparr>"
  have run: "get_ssh_config_log ?lines (JObj ?defaults) = Inr ?st"
    by code_simp
  have ns: "''status'' \<notin> fst ` set ?defaults"
    by simp
  have tok: "\<forall>key\<in>fst ` set ?defaults. \<not> list_all is_space key"
    by (simp add: is_space_def)
  have d: "sublist ''PermitRootLogin'' (''PermitRootLogin yes'' @ [CHR 0x0A])
           \<and> CHR ''#'' \<notin> set (''PermitRootLogin yes'' @ [CHR 0x0A])
           \<and> dict_get ?defaults ''PermitRootLogin'' \<noteq> JStr (last (split_ws (''PermitRootLogin yes'' @ [CHR 0x0A])))"
    by code_simp
  have e: "sublist ''Port'' (''Port 22'' @ [CHR 0x0A])
           \<and> CHR ''#'' \<notin> set (''Port 22'' @ [CHR 0x0A])
           \<and> dict_get ?defaults ''Port'' = JStr (last (split_ws (''Port 22'' @ [CHR 0x0A])))"
    by code_simp
  note t = status_flips_on_difference
             [where defaults = ?defaults and all_lines = ?lines and st = ?st, OF ns]
  note completes = mp [OF conjunct1 [OF conjunct2 [OF t]] tok]
  note res = mp [OF conjunct2 [OF conjunct2 [OF t]] run]
  have "\<exists>key\<in>fst ` set ?defaults. \<exists>line\<in>set ?lines.
           sublist key line \<and> CHR ''#'' \<notin> set line
           \<and> dict_get ?defaults key \<noteq> JStr (last (split_ws line))"
    using d by (intro bexI [where x = "''PermitRootLogin''"] bexI [where x = "''PermitRootLogin yes'' @ [CHR 0x0A]"]) simp_all
  with conjunct1 [OF res] have c1: "map_of (report ?st) ''status'' = Some ''compliant''"
    by simp
  from conjunct2 [OF res]
  have "sublist ''Port'' (''Port 22'' @ [CHR 0x0A]) \<and> CHR ''#'' \<notin> set (''Port 22'' @ [CHR 0x0A])
             \<and> dict_get ?defaults ''Port'' = JStr (last (split_ws (''Port 22'' @ [CHR 0x0A])))
             \<longrightarrow> ''Port'' \<in> fst ` set (report ?st)"
    by simp
  with e have c2: "''Port'' \<in> fst ` set (report ?st)"
    by (rule rev_mp)
  from c1 c2 run show ?thesis by (intro conjI)
qed

subsection \<open>A directive on several lines\<close>

text \<open>
  C10. With the expected value \<open>22\<close> for \<open>Port\<close> and the two lines \<open>Port 22\<close> and
  \<open>Port 2222\<close>, the second match overwrites the value kept in \<open>message\<close> and sets the
  status, but the report still holds \<open>22\<close>, the token of the first matching line: only
  the branch for an equal value copies \<open>message\<close> into the report.
\<close>

theorem repeated_directive_reports_first_token:
  "get_ssh_config_log [''Port 22'' @ [CHR 0x0A], ''Port 2222'' @ [CHR 0x0A]] (JObj [(''Port'', JStr ''22'')])
     = Inr \<lparr>message = [(''Port'', ''2222'')],
            end_message = [(''status'', ''compliant''), (''Port'', ''22'')],
            writes = [[(''status'', ''compliant''), (''Port'', ''22'')],
                      [(''status'', ''compliant''), (''Port'', ''22'')]]\<rparr>"
  by code_simp

end
